theory Spec2Isabelle
  imports Main
begin

section \<open>Data model\<close>

text \<open>
  The value \<^verbatim>\<open>yaml.safe_load\<close> hands back: Python's \<^verbatim>\<open>None\<close>, a scalar, a list or a
  dict. A dict is kept as the list of its items, in insertion order. The attribute
  \<^verbatim>\<open>self.config\<close> starts as \<^verbatim>\<open>None\<close>, which is the same value as a parsed YAML null.
\<close>

datatype yaml =
    YNull
  | YBool bool
  | YInt int
  | YStr string
  | YSeq "yaml list"
  | YMap "(yaml \<times> yaml) list"

text \<open>\<^verbatim>\<open>isinstance(v, dict)\<close>\<close>

fun is_dict :: "yaml \<Rightarrow> bool" where
  "is_dict (YMap kvs) = True"
| "is_dict v = False"

text \<open>\<^verbatim>\<open>k in d\<close> for a string \<^verbatim>\<open>k\<close> and the items of a dict \<^verbatim>\<open>d\<close>: only a string key
  compares equal to a string.\<close>

definition key_in :: "string \<Rightarrow> (yaml \<times> yaml) list \<Rightarrow> bool" where
  "key_in k kvs = (YStr k \<in> set (map fst kvs))"

text \<open>The exceptions the pipeline meets, each with the text \<^verbatim>\<open>str(e)\<close> is built from.\<close>

datatype exn =
    FileNotFoundError string
  | PermissionError string
  | IsADirectoryError string
  | YAMLError string
  | ValueError string
  | AttributeError string
  | TemplateNotFound string
  | OtherError string

definition quoted :: "string \<Rightarrow> string" where
  "quoted p = CHR 0x27 # p @ [CHR 0x27]"

fun exn_str :: "exn \<Rightarrow> string" where
  "exn_str (FileNotFoundError p) = ''[Errno 2] No such file or directory: '' @ quoted p"
| "exn_str (PermissionError p) = ''[Errno 13] Permission denied: '' @ quoted p"
| "exn_str (IsADirectoryError p) = ''[Errno 21] Is a directory: '' @ quoted p"
| "exn_str (YAMLError d) = d"
| "exn_str (ValueError m) = m"
| "exn_str (AttributeError m) = m"
| "exn_str (TemplateNotFound n) = n"
| "exn_str (OtherError m) = m"

datatype level = INFO | WARNING | ERROR

datatype stage = LoadConfig | ValidateConfig | LoadTemplate | GenerateScript

text \<open>A path names a regular file, with its permission bits and its text, or a directory.\<close>

datatype fnode = File (readable: bool) (writable: bool) (content: string) | Directory

text \<open>
  The process environment: the file system as a map from the path strings given to
  \<^verbatim>\<open>open\<close>; what the operating system answers when a file that does not exist is to be
  created (\<open>None\<close>: it is created); whether the next write breaks off (after how many
  characters, with which exception); the records sent to \<^verbatim>\<open>logging\<close>, without their
  timestamps; and the methods entered so far, which is bookkeeping of the model.
\<close>

record env =
  files :: "string \<rightharpoonup> fnode"
  create_fault :: "string \<Rightarrow> exn option"
  write_fault :: "(nat \<times> exn) option"
  logs :: "(level \<times> string) list"
  calls :: "stage list"

text \<open>The object \<^verbatim>\<open>self\<close> of \<^verbatim>\<open>CompliancePolicyGenerator\<close>, together with the environment
  its methods act on.\<close>

record 't state = env +
  compliance_standard :: string
  config_file :: string
  output_file :: string
  platform :: string
  config :: yaml
  template :: "'t option"

text \<open>
  The two libraries the program calls: \<^verbatim>\<open>yaml.safe_load\<close> on the text of a file, the
  compilation of a template source by \<^verbatim>\<open>jinja2\<close>, and \<^verbatim>\<open>Template.render(config=...)\<close>.
  Each either raises or returns. Templates are self-contained: a template that pulls in
  other files or draws random values is outside this model.
\<close>

record 't libs =
  safe_load :: "string \<Rightarrow> exn + yaml"
  compile_template :: "string \<Rightarrow> exn + 't"
  render :: "'t \<Rightarrow> yaml \<Rightarrow> exn + string"

section \<open>Operations\<close>

definition logging :: "level \<Rightarrow> string \<Rightarrow> ('t, 'z) state_scheme \<Rightarrow> ('t, 'z) state_scheme" where
  "logging lv m s = s\<lparr>logs := logs s @ [(lv, m)]\<rparr>"

definition enter :: "stage \<Rightarrow> ('t, 'z) state_scheme \<Rightarrow> ('t, 'z) state_scheme" where
  "enter st s = s\<lparr>calls := calls s @ [st]\<rparr>"

text \<open>\<^verbatim>\<open>__init__\<close>\<close>

definition init :: "string \<Rightarrow> string \<Rightarrow> string \<Rightarrow> string \<Rightarrow> env \<Rightarrow> 't state" where
  "init cs cf outf pf w =
     \<lparr>files = files w, create_fault = create_fault w, write_fault = write_fault w,
      logs = logs w, calls = calls w,
      compliance_standard = cs, config_file = cf, output_file = outf, platform = pf,
      config = YNull, template = None\<rparr>"

text \<open>\<^verbatim>\<open>open(p, 'r')\<close> followed by reading the whole file.\<close>

definition open_read :: "string \<Rightarrow> (string \<rightharpoonup> fnode) \<Rightarrow> exn + string" where
  "open_read p fs =
     (case fs p of
        None \<Rightarrow> Inl (FileNotFoundError p)
      | Some Directory \<Rightarrow> Inl (IsADirectoryError p)
      | Some (File r w c) \<Rightarrow> if r then Inr c else Inl (PermissionError p))"

text \<open>The body of the \<^verbatim>\<open>try\<close> of \<^verbatim>\<open>load_config\<close>.\<close>

definition load_config_try :: "'t libs \<Rightarrow> 't state \<Rightarrow> exn + 't state" where
  "load_config_try L s =
     (case open_read (config_file s) (files s) of
        Inl e \<Rightarrow> Inl e
      | Inr text \<Rightarrow>
          (case safe_load L text of
             Inl e \<Rightarrow> Inl e
           | Inr v \<Rightarrow>
               Inr (logging INFO (''Configuration loaded from '' @ config_file s)
                      (s\<lparr>config := v\<rparr>))))"

definition load_config :: "'t libs \<Rightarrow> 't state \<Rightarrow> exn option \<times> 't state" where
  "load_config L s0 =
     (let s = enter LoadConfig s0 in
      case load_config_try L s of
        Inr s' \<Rightarrow> (None, s')
      | Inl e \<Rightarrow>
          (case e of
             FileNotFoundError p \<Rightarrow>
               (Some e, logging ERROR (''Configuration file not found: '' @ config_file s) s)
           | YAMLError d \<Rightarrow>
               (Some e, logging ERROR (''Error parsing YAML configuration: '' @ exn_str e) s)
           | _ \<Rightarrow> (Some e, s)))"

definition validate_config :: "'t state \<Rightarrow> exn option \<times> 't state" where
  "validate_config s0 =
     (let s = enter ValidateConfig s0 in
      if \<not> is_dict (config s) then
        (Some (ValueError ''Invalid configuration format''),
         logging ERROR ''Invalid configuration format. Expected a dictionary.'' s)
      else
        (case config s of
           YMap kvs \<Rightarrow>
             if \<not> key_in ''policies'' kvs then
               (None,
                logging WARNING
                  (''No '' @ quoted ''policies'' @
                   '' key found in the configuration.  Some rules may be missed'') s)
             else (None, s)
         | _ \<Rightarrow> (None, s)))"

definition template_path :: "string \<Rightarrow> string \<Rightarrow> string" where
  "template_path pf cs = ''templates/'' @ pf @ ''/'' @ cs @ ''.j2''"

text \<open>
  Modelled from the spec: \<^verbatim>\<open>Environment.get_template\<close> with a \<^verbatim>\<open>FileSystemLoader('.')\<close>
  belongs to the jinja2 library, which is not part of the repository. By the spec it
  fails with \<^verbatim>\<open>TemplateNotFound\<close> if no template exists at the identifier and with another
  load error for a permission or syntax failure; it only reads the file system.
\<close>

definition get_template :: "'t libs \<Rightarrow> (string \<rightharpoonup> fnode) \<Rightarrow> string \<Rightarrow> exn + 't" where
  "get_template L fs name =
     (case fs name of
        Some (File r w c) \<Rightarrow> if r then compile_template L c else Inl (PermissionError name)
      | _ \<Rightarrow> Inl (TemplateNotFound name))"

definition load_template :: "'t libs \<Rightarrow> 't state \<Rightarrow> exn option \<times> 't state" where
  "load_template L s0 =
     (let s = enter LoadTemplate s0;
          tp = template_path (platform s) (compliance_standard s) in
      case get_template L (files s) tp of
        Inr t \<Rightarrow> (None, logging INFO (''Template loaded from '' @ tp) (s\<lparr>template := Some t\<rparr>))
      | Inl e \<Rightarrow>
          (case e of
             TemplateNotFound n \<Rightarrow> (Some e, logging ERROR (''Template not found: '' @ tp) s)
           | _ \<Rightarrow> (Some e, logging ERROR (''Error loading template: '' @ exn_str e) s)))"

text \<open>\<^verbatim>\<open>open(p, 'w')\<close>: an existing regular file is truncated if it may be written, a
  missing one is created if the operating system allows it.\<close>

definition open_write :: "string \<Rightarrow> 't state \<Rightarrow> exn + 't state" where
  "open_write p s =
     (case files s p of
        Some Directory \<Rightarrow> Inl (IsADirectoryError p)
      | Some (File r w c) \<Rightarrow>
          if w then Inr (s\<lparr>files := (files s)(p \<mapsto> File r w [])\<rparr>) else Inl (PermissionError p)
      | None \<Rightarrow>
          (case create_fault s p of
             Some e \<Rightarrow> Inl e
           | None \<Rightarrow> Inr (s\<lparr>files := (files s)(p \<mapsto> File True True [])\<rparr>)))"

text \<open>\<^verbatim>\<open>f.write(text)\<close> and the close at the end of the \<^verbatim>\<open>with\<close> block, on a file that
  \<open>open_write\<close> has just opened.\<close>

definition put_text :: "string \<Rightarrow> string \<Rightarrow> 't state \<Rightarrow> exn option \<times> 't state" where
  "put_text p text s =
     (case files s p of
        Some (File r w c) \<Rightarrow>
          (case write_fault s of
             None \<Rightarrow> (None, s\<lparr>files := (files s)(p \<mapsto> File r w text)\<rparr>)
           | Some (n, e) \<Rightarrow> (Some e, s\<lparr>files := (files s)(p \<mapsto> File r w (take n text))\<rparr>))
      | _ \<Rightarrow> (Some (OtherError ''I/O operation on closed file''), s))"

text \<open>The body of the \<^verbatim>\<open>try\<close> of \<^verbatim>\<open>generate_script\<close>.\<close>

definition generate_script_try :: "'t libs \<Rightarrow> 't state \<Rightarrow> exn option \<times> 't state" where
  "generate_script_try L s =
     (case template s of
        None \<Rightarrow> (Some (AttributeError (quoted ''NoneType'' @ '' object has no attribute '' @ quoted ''render'')), s)
      | Some t \<Rightarrow>
          (case render L t (config s) of
             Inl e \<Rightarrow> (Some e, s)
           | Inr rendered_script \<Rightarrow>
               (case open_write (output_file s) s of
                  Inl e \<Rightarrow> (Some e, s)
                | Inr s1 \<Rightarrow>
                    (case put_text (output_file s) rendered_script s1 of
                       (Some e, s2) \<Rightarrow> (Some e, s2)
                     | (None, s2) \<Rightarrow>
                         (None,
                          logging INFO (''Script generated successfully: '' @ output_file s) s2)))))"

definition generate_script :: "'t libs \<Rightarrow> 't state \<Rightarrow> exn option \<times> 't state" where
  "generate_script L s0 =
     (case generate_script_try L (enter GenerateScript s0) of
        (None, s') \<Rightarrow> (None, s')
      | (Some e, s') \<Rightarrow> (Some e, logging ERROR (''Error generating script: '' @ exn_str e) s'))"

text \<open>How \<^verbatim>\<open>run\<close> ends: it returns, or \<^verbatim>\<open>sys.exit\<close> raises \<^verbatim>\<open>SystemExit\<close> with a status.\<close>

datatype outcome = Returned | SystemExit nat

definition run_except :: "exn \<Rightarrow> 't state \<Rightarrow> outcome \<times> 't state" where
  "run_except e s = (SystemExit 1, logging ERROR (''Script generation failed: '' @ exn_str e) s)"

definition run :: "'t libs \<Rightarrow> 't state \<Rightarrow> outcome \<times> 't state" where
  "run L s =
     (case load_config L s of
        (Some e, s1) \<Rightarrow> run_except e s1
      | (None, s1) \<Rightarrow>
          (case validate_config s1 of
             (Some e, s2) \<Rightarrow> run_except e s2
           | (None, s2) \<Rightarrow>
               (case load_template L s2 of
                  (Some e, s3) \<Rightarrow> run_except e s3
                | (None, s3) \<Rightarrow>
                    (case generate_script L s3 of
                       (Some e, s4) \<Rightarrow> run_except e s4
                     | (None, s4) \<Rightarrow> (Returned, s4)))))"

text \<open>\<^verbatim>\<open>main\<close> after the command line is parsed: the exit status of the process.
  \<^verbatim>\<open>SystemExit\<close> is not an \<^verbatim>\<open>Exception\<close>, so the handler of \<^verbatim>\<open>main\<close> lets it through.\<close>

definition main :: "'t libs \<Rightarrow> string \<Rightarrow> string \<Rightarrow> string \<Rightarrow> string \<Rightarrow> env \<Rightarrow> nat \<times> 't state" where
  "main L cs cf outf pf w =
     (case run L (init cs cf outf pf w) of
        (Returned, s) \<Rightarrow> (0, s)
      | (SystemExit n, s) \<Rightarrow> (n, s))"

text \<open>The text of the regular file at a path, if there is one.\<close>

definition content_of :: "string \<Rightarrow> ('t, 'z) state_scheme \<Rightarrow> string option" where
  "content_of p s = (case files s p of Some (File r w c) \<Rightarrow> Some c | _ \<Rightarrow> None)"

section \<open>The template engine on the constructs of the scenarios\<close>

text \<open>
  Modelled from the spec: the rendering of a template is done by the jinja2 library, which
  is not part of the repository. By the spec a template is a text with placeholders and
  loops over the shape of the configuration, bound to the single name \<^verbatim>\<open>config\<close>; rendering
  echoes a text field verbatim and fails when the template iterates a value that is not a
  sequence or refers to a key the configuration does not provide. Only these constructs
  are modelled; a placeholder whose value is not a text is outside the model and is
  answered with an error.
\<close>

datatype expr = Var string | Attr expr string

datatype node = Text string | Output expr | For string expr "node list"

fun eval_expr :: "(string \<times> yaml) list \<Rightarrow> expr \<Rightarrow> exn + yaml" where
  "eval_expr b (Var x) =
     (case map_of b x of
        Some v \<Rightarrow> Inr v
      | None \<Rightarrow> Inl (OtherError (quoted x @ '' is undefined'')))"
| "eval_expr b (Attr e k) =
     (case eval_expr b e of
        Inl err \<Rightarrow> Inl err
      | Inr v \<Rightarrow>
          (case v of
             YMap kvs \<Rightarrow>
               (case map_of kvs (YStr k) of
                  Some u \<Rightarrow> Inr u
                | None \<Rightarrow> Inl (OtherError (''missing key '' @ quoted k)))
           | _ \<Rightarrow> Inl (OtherError (''not a mapping: no key '' @ quoted k))))"

fun to_text :: "yaml \<Rightarrow> exn + string" where
  "to_text (YStr t) = Inr t"
| "to_text v = Inl (OtherError ''placeholder value is not a text'')"

fun render_node :: "(string \<times> yaml) list \<Rightarrow> node \<Rightarrow> exn + string"
  and render_nodes :: "(string \<times> yaml) list \<Rightarrow> node list \<Rightarrow> exn + string"
  and render_loop :: "string \<Rightarrow> (string \<times> yaml) list \<Rightarrow> node list \<Rightarrow> yaml list \<Rightarrow> exn + string"
where
  "render_node b (Text t) = Inr t"
| "render_node b (Output e) =
     (case eval_expr b e of Inl err \<Rightarrow> Inl err | Inr v \<Rightarrow> to_text v)"
| "render_node b (For x e body) =
     (case eval_expr b e of
        Inl err \<Rightarrow> Inl err
      | Inr v \<Rightarrow>
          (case v of
             YSeq items \<Rightarrow> render_loop x b body items
           | _ \<Rightarrow> Inl (OtherError ''loop over a value that is not a sequence'')))"
| "render_nodes b [] = Inr []"
| "render_nodes b (n # ns) =
     (case render_node b n of
        Inl err \<Rightarrow> Inl err
      | Inr t \<Rightarrow>
          (case render_nodes b ns of Inl err \<Rightarrow> Inl err | Inr u \<Rightarrow> Inr (t @ u)))"
| "render_loop x b body [] = Inr []"
| "render_loop x b body (i # items) =
     (case render_nodes ((x, i) # b) body of
        Inl err \<Rightarrow> Inl err
      | Inr t \<Rightarrow>
          (case render_loop x b body items of Inl err \<Rightarrow> Inl err | Inr u \<Rightarrow> Inr (t @ u)))"

definition render_tmpl :: "node list \<Rightarrow> yaml \<Rightarrow> exn + string" where
  "render_tmpl t cfg = render_nodes [(''config'', cfg)] t"

fun lines_acc :: "string \<Rightarrow> string \<Rightarrow> string list" where
  "lines_acc cur [] = (if cur = [] then [] else [cur])"
| "lines_acc cur (c # cs) =
     (if c = CHR 0x0A then cur # lines_acc [] cs else lines_acc (cur @ [c]) cs)"

definition lines_of :: "string \<Rightarrow> string list" where
  "lines_of t = lines_acc [] t"

definition scenarioA_config :: yaml where
  "scenarioA_config =
     YMap [(YStr ''policies'',
            YSeq [YMap [(YStr ''name'', YStr ''Disable cups''),
                        (YStr ''services'', YSeq [YStr ''cups''])]])]"

definition scenarioA_template :: "node list" where
  "scenarioA_template =
     [For ''policy'' (Attr (Var ''config'') ''policies'')
        [For ''service'' (Attr (Var ''policy'') ''services'')
           [Text ''systemctl disable '', Output (Var ''service''), Text [CHR 0x0A]]]]"

section \<open>The documents of the scenarios\<close>

text \<open>
  Modelled from the spec: the configuration and the template of scenario A, and the two
  libraries on the documents that the scenarios name, given as a table. The table stands
  for \<^verbatim>\<open>yaml.safe_load\<close> and for the template compiler at concrete runs only; every text
  outside it is answered with an error.
\<close>

definition scenarioA_yaml :: string where
  "scenarioA_yaml = ''{policies: [{name: Disable cups, services: [cups]}]}''"

definition scenarioA_source :: string where
  "scenarioA_source =
     ''{% for policy in config.policies %}{% for service in policy.services %}'' @
     ''systemctl disable {{ service }}'' @ [CHR 0x0A] @ ''{% endfor %}{% endfor %}''"

definition scenario_safe_load :: "string \<Rightarrow> exn + yaml" where
  "scenario_safe_load t =
     (if t = scenarioA_yaml then Inr scenarioA_config
      else if t = [] then Inr YNull
      else if t = ''[1, 2, 3]'' then Inr (YSeq [YInt 1, YInt 2, YInt 3])
      else if t = ''rules: []'' then Inr (YMap [(YStr ''rules'', YSeq [])])
      else if t = ''policies: ['' then Inl (YAMLError ''while parsing a flow node'')
      else Inl (OtherError ''document outside the table''))"

definition scenario_compile :: "string \<Rightarrow> exn + node list" where
  "scenario_compile src =
     (if src = scenarioA_source then Inr scenarioA_template
      else Inl (OtherError ''template outside the table''))"

definition scenario_libs :: "(node list) libs" where
  "scenario_libs =
     \<lparr>safe_load = scenario_safe_load, compile_template = scenario_compile,
      render = render_tmpl\<rparr>"

definition env_with :: "(string \<times> fnode) list \<Rightarrow> env" where
  "env_with fl =
     \<lparr>files = map_of fl, create_fault = (\<lambda>p. None), write_fault = None,
      logs = [], calls = []\<rparr>"

definition scenario_state :: "(string \<times> fnode) list \<Rightarrow> (node list) state" where
  "scenario_state fl = init ''CIS'' ''config.yaml'' ''hardening.sh'' ''linux'' (env_with fl)"

section \<open>What each method leaves unchanged\<close>

lemma logging_fields [simp]:
  "files (logging lv m s) = files s"
  "calls (logging lv m s) = calls s"
  "logs (logging lv m s) = logs s @ [(lv, m)]"
  "create_fault (logging lv m s) = create_fault s"
  "write_fault (logging lv m s) = write_fault s"
  "compliance_standard (logging lv m s) = compliance_standard s"
  "config_file (logging lv m s) = config_file s"
  "output_file (logging lv m s) = output_file s"
  "platform (logging lv m s) = platform s"
  "config (logging lv m s) = config s"
  "template (logging lv m s) = template s"
  by (simp_all add: logging_def)

lemma enter_fields [simp]:
  "files (enter st s) = files s"
  "calls (enter st s) = calls s @ [st]"
  "logs (enter st s) = logs s"
  "create_fault (enter st s) = create_fault s"
  "write_fault (enter st s) = write_fault s"
  "compliance_standard (enter st s) = compliance_standard s"
  "config_file (enter st s) = config_file s"
  "output_file (enter st s) = output_file s"
  "platform (enter st s) = platform s"
  "config (enter st s) = config s"
  "template (enter st s) = template s"
  by (simp_all add: enter_def)

lemma load_config_frame [simp]:
  "files (snd (load_config L s)) = files s"
  "calls (snd (load_config L s)) = calls s @ [LoadConfig]"
  "create_fault (snd (load_config L s)) = create_fault s"
  "write_fault (snd (load_config L s)) = write_fault s"
  "compliance_standard (snd (load_config L s)) = compliance_standard s"
  "config_file (snd (load_config L s)) = config_file s"
  "output_file (snd (load_config L s)) = output_file s"
  "platform (snd (load_config L s)) = platform s"
  "template (snd (load_config L s)) = template s"
  by (simp_all add: load_config_def load_config_try_def Let_def split: sum.splits exn.splits)

lemma validate_config_frame [simp]:
  "files (snd (validate_config s)) = files s"
  "calls (snd (validate_config s)) = calls s @ [ValidateConfig]"
  "create_fault (snd (validate_config s)) = create_fault s"
  "write_fault (snd (validate_config s)) = write_fault s"
  "compliance_standard (snd (validate_config s)) = compliance_standard s"
  "config_file (snd (validate_config s)) = config_file s"
  "output_file (snd (validate_config s)) = output_file s"
  "platform (snd (validate_config s)) = platform s"
  "config (snd (validate_config s)) = config s"
  "template (snd (validate_config s)) = template s"
  by (simp_all add: validate_config_def Let_def split: yaml.splits)

lemma load_template_frame [simp]:
  "files (snd (load_template L s)) = files s"
  "calls (snd (load_template L s)) = calls s @ [LoadTemplate]"
  "create_fault (snd (load_template L s)) = create_fault s"
  "write_fault (snd (load_template L s)) = write_fault s"
  "compliance_standard (snd (load_template L s)) = compliance_standard s"
  "config_file (snd (load_template L s)) = config_file s"
  "output_file (snd (load_template L s)) = output_file s"
  "platform (snd (load_template L s)) = platform s"
  "config (snd (load_template L s)) = config s"
  by (simp_all add: load_template_def Let_def split: sum.splits exn.splits)

lemma generate_script_calls [simp]:
  "calls (snd (generate_script L s)) = calls s @ [GenerateScript]"
  by (auto simp add: generate_script_def generate_script_try_def open_write_def put_text_def
      split: option.splits sum.splits fnode.splits prod.splits if_splits)

lemma run_except_fields [simp]:
  "fst (run_except e s) = SystemExit 1"
  "files (snd (run_except e s)) = files s"
  "calls (snd (run_except e s)) = calls s"
  by (simp_all add: run_except_def)

lemma scenario_state_fields [simp]:
  "files (scenario_state fl) = map_of fl"
  "create_fault (scenario_state fl) = (\<lambda>p. None)"
  "write_fault (scenario_state fl) = None"
  "logs (scenario_state fl) = []"
  "calls (scenario_state fl) = []"
  "compliance_standard (scenario_state fl) = ''CIS''"
  "config_file (scenario_state fl) = ''config.yaml''"
  "output_file (scenario_state fl) = ''hardening.sh''"
  "platform (scenario_state fl) = ''linux''"
  "config (scenario_state fl) = YNull"
  "template (scenario_state fl) = None"
  by (simp_all add: scenario_state_def init_def env_with_def)

lemma scenario_libs_fields [simp]:
  "safe_load scenario_libs = scenario_safe_load"
  "compile_template scenario_libs = scenario_compile"
  "render scenario_libs = render_tmpl"
  by (simp_all add: scenario_libs_def)

lemma load_config_loaded:
  "open_read (config_file s) (files s) = Inr c \<Longrightarrow> safe_load L c = Inr v \<Longrightarrow>
   load_config L s =
     (None, logging INFO (''Configuration loaded from '' @ config_file s)
              ((enter LoadConfig s)\<lparr>config := v\<rparr>))"
  by (simp add: load_config_def load_config_try_def Let_def)

lemma run_unfold:
  "run L s =
     (let r1 = load_config L s in
      case fst r1 of
        Some e \<Rightarrow> run_except e (snd r1)
      | None \<Rightarrow>
         (let r2 = validate_config (snd r1) in
          case fst r2 of
            Some e \<Rightarrow> run_except e (snd r2)
          | None \<Rightarrow>
             (let r3 = load_template L (snd r2) in
              case fst r3 of
                Some e \<Rightarrow> run_except e (snd r3)
              | None \<Rightarrow>
                 (let r4 = generate_script L (snd r3) in
                  case fst r4 of
                    Some e \<Rightarrow> run_except e (snd r4)
                  | None \<Rightarrow> (Returned, snd r4)))))"
  by (simp add: run_def Let_def split: prod.splits option.splits)

section \<open>The validator\<close>

text \<open>
  C1. \<^verbatim>\<open>validate_config\<close> raises exactly when the parsed configuration is not a mapping:
  it returns normally for every mapping, whatever its keys, and for every other value
  (null, scalar or sequence) it raises \<^verbatim>\<open>ValueError("Invalid configuration format")\<close>.
\<close>

theorem validate_config_raises_iff_not_mapping:
  "(fst (validate_config s) = None \<longleftrightarrow> (\<exists>kvs. config s = YMap kvs)) \<and>
   (fst (validate_config s) \<noteq> None \<longrightarrow>
      fst (validate_config s) = Some (ValueError ''Invalid configuration format''))"
  by (cases "config s") (simp_all add: validate_config_def Let_def)

theorem validate_config_raises_iff_not_mapping_witness:
  "fst (validate_config ((scenario_state [])\<lparr>config := YSeq [YInt 1, YInt 2, YInt 3]\<rparr>))
     = Some (ValueError ''Invalid configuration format'') \<and>
   fst (validate_config ((scenario_state [])\<lparr>config := YMap [(YStr ''rules'', YSeq [])]\<rparr>))
     = None"
  using validate_config_raises_iff_not_mapping
          [of "(scenario_state [])\<lparr>config := YSeq [YInt 1, YInt 2, YInt 3]\<rparr>"]
        validate_config_raises_iff_not_mapping
          [of "(scenario_state [])\<lparr>config := YMap [(YStr ''rules'', YSeq [])]\<rparr>"]
  by simp

end
